theory Spec2Isabelle
  imports Complex_Main "HOL-Library.Word"
begin

unbundle bit_operations_syntax

section \<open>The live voice session of components/LiveView\<close>

text \<open>
  The development embeds the live-session component (the second document of
  \<^verbatim>\<open>src/components/VideoView.tsx\<close>, component \<^verbatim>\<open>LiveView\<close>): the capture callback
  \<^verbatim>\<open>onaudioprocess\<close>, the inbound handler \<^verbatim>\<open>onmessage\<close>, \<^verbatim>\<open>stopSession\<close> and the
  session callbacks. The inbound handler is asynchronous: it is embedded in two parts,
  before and after its \<^verbatim>\<open>await\<close>, and other callbacks may run between the two. Audio samples and times are JavaScript numbers; they are modelled
  as \<^typ>\<open>real\<close>. Every operation the codec performs on a sample (scaling by the power
  of two 32768, truncation, division by 32768) is exact on finite binary floating-point
  numbers in the range concerned, so the real-number model computes the same values;
  NaN and the infinities are outside the model.
\<close>

subsection \<open>Typed arrays\<close>

type_synonym byte = "8 word"
type_synonym int16 = "16 word"

text \<open>
  What the handlers can throw: a corrupt audio payload, and the \<^verbatim>\<open>TypeError\<close> of
  reading a property of \<^verbatim>\<open>undefined\<close>.
\<close>

datatype error = MalformedAudioData | TypeError

text \<open>
  Storing a number into an \<^verbatim>\<open>Int16Array\<close> element applies the ECMAScript conversion
  ToInt16: the number is truncated towards zero and then reduced modulo \<open>2^16\<close> into
  the signed range. \<^const>\<open>word_of_int\<close> is the reduction; \<^const>\<open>sint\<close> reads the
  element back as the signed value.
\<close>

definition js_truncate :: "real \<Rightarrow> int" where
  "js_truncate v = (if v < 0 then \<lceil>v\<rceil> else \<lfloor>v\<rfloor>)"

definition ToInt16 :: "real \<Rightarrow> int16" where
  "ToInt16 v = word_of_int (js_truncate v)"

text \<open>
  The loop of \<^verbatim>\<open>onaudioprocess\<close>: \<^verbatim>\<open>int16[i] = inputData[i] * 32768\<close> for every index.
\<close>

definition int16_of_samples :: "real list \<Rightarrow> int16 list" where
  "int16_of_samples inputData = map (\<lambda>x. ToInt16 (x * 32768)) inputData"

text \<open>
  \<^verbatim>\<open>new Uint8Array(int16.buffer)\<close>: the bytes of the array's buffer. Typed arrays use
  the platform's byte order, little-endian on the platforms browsers run on: the low
  byte of each element comes first.
\<close>

definition int16_bytes :: "int16 \<Rightarrow> byte list" where
  "int16_bytes w = [ucast w, ucast (drop_bit 8 w)]"

definition uint8_view :: "int16 list \<Rightarrow> byte list" where
  "uint8_view ws = concat (map int16_bytes ws)"

subsection \<open>The helpers of utils/audioUtils\<close>

text \<open>
  Modelled from the spec: \<^verbatim>\<open>encode\<close>, \<^verbatim>\<open>decode\<close> and \<^verbatim>\<open>decodeAudioData\<close> are
  imported from \<^verbatim>\<open>utils/audioUtils.ts\<close>, which is not among the sources. The
  specification (section 4.1) describes them: \<^verbatim>\<open>encode\<close> is the "reversible
  byte-to-text transform (base64)" applied to the outbound bytes, \<^verbatim>\<open>decode\<close>
  (decodeInbound) "reverses the text transform only, yielding raw little-endian 16-bit
  PCM bytes", and \<^verbatim>\<open>decodeAudioData\<close> (reconstructAudio) "reinterprets bytes as 16-bit
  signed samples, normalizes each to floating point in [-1.0, 1.0]" and "fails with
  MalformedAudioData if byte length is not a multiple of 2". Base64 is the standard
  alphabet with \<^verbatim>\<open>=\<close> padding; normalisation divides by 32768, the inverse of the
  scaling of the encoder.
\<close>

definition b64_char :: "nat \<Rightarrow> char" where
  "b64_char n =
     (if n < 26 then char_of (65 + n)
      else if n < 52 then char_of (71 + n)
      else if n < 62 then char_of (n - 4)
      else if n = 62 then CHR ''+'' else CHR ''/'')"

definition b64_index :: "char \<Rightarrow> nat option" where
  "b64_index c =
     (let k = (of_char c :: nat) in
      if 65 \<le> k \<and> k \<le> 90 then Some (k - 65)
      else if 97 \<le> k \<and> k \<le> 122 then Some (k - 71)
      else if 48 \<le> k \<and> k \<le> 57 then Some (k + 4)
      else if k = 43 then Some 62
      else if k = 47 then Some 63
      else None)"

text \<open>Modelled from the spec: the base64 text of a byte sequence (\<^verbatim>\<open>encode\<close>).\<close>

fun encode :: "byte list \<Rightarrow> string" where
  "encode (a # b # c # rest) =
     b64_char (unat a div 4) #
     b64_char (unat a mod 4 * 16 + unat b div 16) #
     b64_char (unat b mod 16 * 4 + unat c div 64) #
     b64_char (unat c mod 64) # encode rest"
| "encode [a, b] =
     [b64_char (unat a div 4),
      b64_char (unat a mod 4 * 16 + unat b div 16),
      b64_char (unat b mod 16 * 4), CHR ''='']"
| "encode [a] =
     [b64_char (unat a div 4), b64_char (unat a mod 4 * 16), CHR ''='', CHR ''='']"
| "encode [] = []"

definition decode_quad :: "char \<Rightarrow> char \<Rightarrow> char \<Rightarrow> char \<Rightarrow> byte list option" where
  "decode_quad c1 c2 c3 c4 =
     (case (b64_index c1, b64_index c2, b64_index c3, b64_index c4) of
        (Some i1, Some i2, Some i3, Some i4) \<Rightarrow>
          Some [of_nat (i1 * 4 + i2 div 16),
                of_nat (i2 mod 16 * 16 + i3 div 4),
                of_nat (i3 mod 4 * 64 + i4)]
      | _ \<Rightarrow> None)"

definition decode_last :: "char \<Rightarrow> char \<Rightarrow> char \<Rightarrow> char \<Rightarrow> byte list option" where
  "decode_last c1 c2 c3 c4 =
     (if c3 = CHR ''='' \<and> c4 = CHR ''='' then
        (case (b64_index c1, b64_index c2) of
           (Some i1, Some i2) \<Rightarrow> Some [of_nat (i1 * 4 + i2 div 16)]
         | _ \<Rightarrow> None)
      else if c4 = CHR ''='' then
        (case (b64_index c1, b64_index c2, b64_index c3) of
           (Some i1, Some i2, Some i3) \<Rightarrow>
             Some [of_nat (i1 * 4 + i2 div 16), of_nat (i2 mod 16 * 16 + i3 div 4)]
         | _ \<Rightarrow> None)
      else decode_quad c1 c2 c3 c4)"

text \<open>
  Modelled from the spec: the bytes of a base64 text (\<^verbatim>\<open>decode\<close>); a text that is not
  base64 is a corrupt inbound payload.
\<close>

fun decode :: "string \<Rightarrow> error + byte list" where
  "decode [] = Inr []"
| "decode [c1, c2, c3, c4] =
     (case decode_last c1 c2 c3 c4 of
        None \<Rightarrow> Inl MalformedAudioData
      | Some bs \<Rightarrow> Inr bs)"
| "decode (c1 # c2 # c3 # c4 # rest) =
     (case decode_quad c1 c2 c3 c4 of
        None \<Rightarrow> Inl MalformedAudioData
      | Some bs \<Rightarrow>
          (case decode rest of
             Inl e \<Rightarrow> Inl e
           | Inr bs' \<Rightarrow> Inr (bs @ bs')))"
| "decode _ = Inl MalformedAudioData"

text \<open>
  An \<^verbatim>\<open>AudioBuffer\<close>: the interleaved samples, the sample rate and the channel count.
  Its \<^verbatim>\<open>duration\<close> is the number of sample frames divided by the sample rate.
\<close>

record audio_buffer =
  samples :: "real list"
  sampleRate :: nat
  numberOfChannels :: nat

definition duration :: "audio_buffer \<Rightarrow> real" where
  "duration b = real (length (samples b) div numberOfChannels b) / real (sampleRate b)"

text \<open>Modelled from the spec: the bytes reinterpreted as little-endian signed 16-bit samples.\<close>

fun int16_view :: "byte list \<Rightarrow> error + int16 list" where
  "int16_view [] = Inr []"
| "int16_view (lo # hi # rest) =
     (case int16_view rest of
        Inl e \<Rightarrow> Inl e
      | Inr ws \<Rightarrow> Inr ((push_bit 8 (ucast hi) OR ucast lo) # ws))"
| "int16_view [b] = Inl MalformedAudioData"

text \<open>Modelled from the spec: \<^verbatim>\<open>decodeAudioData\<close> (reconstructAudio).\<close>

definition decodeAudioData :: "byte list \<Rightarrow> nat \<Rightarrow> nat \<Rightarrow> error + audio_buffer" where
  "decodeAudioData data rate channels =
     (case int16_view data of
        Inl e \<Rightarrow> Inl e
      | Inr ws \<Rightarrow>
          Inr \<lparr>samples = map (\<lambda>w. real_of_int (sint w) / 32768) ws,
               sampleRate = rate, numberOfChannels = channels\<rparr>)"

text \<open>
  The call of the handler, \<^verbatim>\<open>decodeAudioData(decode(base64Audio), outputAudioContext, 24000, 1)\<close>.
\<close>

definition decode_inbound :: "string \<Rightarrow> error + audio_buffer" where
  "decode_inbound base64Audio =
     (case decode base64Audio of
        Inl e \<Rightarrow> Inl e
      | Inr data \<Rightarrow> decodeAudioData data 24000 1)"

text \<open>
  The \<^verbatim>\<open>data\<close> field of the blob that \<^verbatim>\<open>onaudioprocess\<close> builds from one captured frame
  (the spec's encodeOutbound).
\<close>

definition pcm_blob_data :: "real list \<Rightarrow> string" where
  "pcm_blob_data inputData = encode (uint8_view (int16_of_samples inputData))"

text \<open>
  The quantisation as the specification words it: \<open>round(sample * 32768)\<close> clamped to
  the 16-bit range. It is compared with \<^const>\<open>ToInt16\<close> below.
\<close>

definition spec_quantize :: "real \<Rightarrow> int" where
  "spec_quantize x = max (- 32768) (min 32767 (round (x * 32768)))"

subsection \<open>The state of the component\<close>

datatype role = User | Model

text \<open>
  The calls the component makes on its collaborators, in the order it makes them: closing
  the remote session, closing the output audio context, starting and stopping a buffer
  source node (named by the order of its creation), and sending one realtime input
  (data and MIME type).
\<close>

datatype effect =
    SessionClose
  | OutputContextClose
  | SourceStart nat real real
  | SourceStop nat
  | SendRealtimeInput string string

record transcription_buffers =
  user :: string
  model :: string

text \<open>
  A server message, reduced to the fields the handler reads: the model turn, the
  \<open>interrupted\<close> and \<open>turnComplete\<close> flags, and the two transcriptions, whose
  \<^verbatim>\<open>text\<close> (here \<open>text_of\<close>) is optional. A model turn has an optional array of
  parts; each part is reduced to its \<^verbatim>\<open>inlineData?.data\<close>, a string or \<^verbatim>\<open>undefined\<close>.
  A message without \<^verbatim>\<open>serverContent\<close> is one with no field set.
\<close>

datatype transcription = Transcription (text_of: "string option")

datatype model_turn = ModelTurn (parts: "string option list option")

record message =
  modelTurn :: "model_turn option"
  interrupted :: bool
  inputTranscription :: "transcription option"
  outputTranscription :: "transcription option"
  turnComplete :: bool

text \<open>
  The React state (\<open>isActive\<close>, \<open>isConnecting\<close>, \<open>transcriptions\<close>), the five refs, and
  what lies outside the component: whether the script processor of \<^verbatim>\<open>onopen\<close> is wired
  to the microphone stream (\<open>capture_connected\<close>), the number of buffer sources created
  so far, the calls made so far, and the runs of the asynchronous handler \<^verbatim>\<open>onmessage\<close>
  that are suspended at \<^verbatim>\<open>await decodeAudioData(...)\<close>, each with the bytes it handed to
  the decoder and its message. \<open>sessionRef\<close> and \<open>audioContextRef\<close> record whether the
  ref holds an object or \<^verbatim>\<open>null\<close>; \<open>sourcesRef\<close> is the \<^verbatim>\<open>Set\<close> in insertion order.
\<close>

record live_state =
  isActive :: bool
  isConnecting :: bool
  transcriptions :: "(role \<times> string) list"
  sessionRef :: bool
  audioContextRef :: bool
  nextStartTimeRef :: real
  sourcesRef :: "nat list"
  transcriptionRef :: transcription_buffers
  capture_connected :: bool
  sources_created :: nat
  effects :: "effect list"
  suspended :: "(byte list \<times> message) list"

definition initial_state :: live_state where
  "initial_state =
     \<lparr>isActive = False, isConnecting = False, transcriptions = [],
      sessionRef = False, audioContextRef = False, nextStartTimeRef = 0,
      sourcesRef = [], transcriptionRef = \<lparr>user = [], model = []\<rparr>,
      capture_connected = False, sources_created = 0, effects = [], suspended = []\<rparr>"

subsection \<open>stopSession and startSession\<close>

definition stopSession :: "live_state \<Rightarrow> live_state" where
  "stopSession s =
     (let s1 = (if sessionRef s
                then s\<lparr>sessionRef := False, effects := effects s @ [SessionClose]\<rparr>
                else s);
          s2 = (if audioContextRef s1
                then s1\<lparr>audioContextRef := False,
                        effects := effects s1 @ [OutputContextClose]\<rparr>
                else s1)
      in s2\<lparr>isActive := False, nextStartTimeRef := 0\<rparr>)"

text \<open>
  \<^verbatim>\<open>startSession\<close> is asynchronous. Its synchronous prefix sets \<open>isConnecting\<close> and
  stores the new output context in \<open>audioContextRef\<close>; the \<^verbatim>\<open>catch\<close> block clears
  \<open>isConnecting\<close>; the resolution of the session promise stores the session.
\<close>

definition startSession_begin :: "live_state \<Rightarrow> live_state" where
  "startSession_begin s = s\<lparr>isConnecting := True, audioContextRef := True\<rparr>"

definition startSession_catch :: "live_state \<Rightarrow> live_state" where
  "startSession_catch s = s\<lparr>isConnecting := False\<rparr>"

definition startSession_resolved :: "live_state \<Rightarrow> live_state" where
  "startSession_resolved s = s\<lparr>sessionRef := True\<rparr>"

text \<open>The button: disabled while connecting, \<^verbatim>\<open>isActive ? stopSession : startSession\<close>.\<close>

definition click :: "live_state \<Rightarrow> live_state" where
  "click s =
     (if isConnecting s then s
      else if isActive s then stopSession s
      else startSession_begin s)"

subsection \<open>The callbacks of the session\<close>

definition onopen :: "live_state \<Rightarrow> live_state" where
  "onopen s = s\<lparr>isConnecting := False, isActive := True, capture_connected := True\<rparr>"

definition onaudioprocess :: "real list \<Rightarrow> live_state \<Rightarrow> live_state" where
  "onaudioprocess inputData s =
     s\<lparr>effects := effects s @
          [SendRealtimeInput (pcm_blob_data inputData) ''audio/pcm;rate=16000'']\<rparr>"

text \<open>String concatenation with an absent text appends the text \<open>undefined\<close>.\<close>

definition js_text :: "transcription \<Rightarrow> string" where
  "js_text t = (case text_of t of None \<Rightarrow> ''undefined'' | Some x \<Rightarrow> x)"

text \<open>
  The two helpers the handler calls, \<^verbatim>\<open>decode\<close> (synchronous, an argument of the
  call) and \<^verbatim>\<open>decodeAudioData\<close> (awaited), are parameters of the handler: a pair of
  functions, each of which may fail.
\<close>

record decoder =
  decode_fn :: "string \<Rightarrow> error + byte list"
  decodeAudioData_fn :: "byte list \<Rightarrow> nat \<Rightarrow> nat \<Rightarrow> error + audio_buffer"

text \<open>The helpers as the specification describes them.\<close>

definition audioUtils :: decoder where
  "audioUtils = \<lparr>decode_fn = decode, decodeAudioData_fn = decodeAudioData\<rparr>"

text \<open>
  The frame a chunk of data decodes to,
  \<^verbatim>\<open>decodeAudioData(decode(base64Audio), outputAudioContext, 24000, 1)\<close>.
\<close>

definition decoded :: "decoder \<Rightarrow> string \<Rightarrow> error + audio_buffer" where
  "decoded dec base64Audio =
     (case decode_fn dec base64Audio of
        Inl e \<Rightarrow> Inl e
      | Inr data \<Rightarrow> decodeAudioData_fn dec data 24000 1)"

text \<open>
  The lines after the \<^verbatim>\<open>await\<close>: the source is created, started at the cursor as it
  is then, the cursor advances by the duration, and the source joins the set.
\<close>

definition schedule :: "audio_buffer \<Rightarrow> live_state \<Rightarrow> live_state" where
  "schedule audioBuffer s =
     s\<lparr>effects := effects s @
          [SourceStart (sources_created s) (nextStartTimeRef s) (duration audioBuffer)],
       nextStartTimeRef := nextStartTimeRef s + duration audioBuffer,
       sourcesRef := sourcesRef s @ [sources_created s],
       sources_created := Suc (sources_created s)\<rparr>"

text \<open>
  \<^verbatim>\<open>message.serverContent?.modelTurn?.parts[0]?.inlineData?.data\<close>: the index is
  applied without \<^verbatim>\<open>?.\<close>, so a model turn without parts throws.
\<close>

definition base64Audio_of :: "message \<Rightarrow> error + string option" where
  "base64Audio_of m =
     (case modelTurn m of
        None \<Rightarrow> Inr None
      | Some t \<Rightarrow>
          (case parts t of
             None \<Rightarrow> Inl TypeError
           | Some [] \<Rightarrow> Inr None
           | Some (p # ps) \<Rightarrow> Inr p))"

definition handle_interrupted :: "message \<Rightarrow> live_state \<Rightarrow> live_state" where
  "handle_interrupted m s =
     (if interrupted m
      then s\<lparr>effects := effects s @ map SourceStop (sourcesRef s),
             sourcesRef := [], nextStartTimeRef := 0\<rparr>
      else s)"

definition handle_inputTranscription :: "message \<Rightarrow> live_state \<Rightarrow> live_state" where
  "handle_inputTranscription m s =
     (case inputTranscription m of
        None \<Rightarrow> s
      | Some t \<Rightarrow>
          s\<lparr>transcriptionRef :=
              (transcriptionRef s)\<lparr>user := user (transcriptionRef s) @ js_text t\<rparr>\<rparr>)"

definition handle_outputTranscription :: "message \<Rightarrow> live_state \<Rightarrow> live_state" where
  "handle_outputTranscription m s =
     (case outputTranscription m of
        None \<Rightarrow> s
      | Some t \<Rightarrow>
          s\<lparr>transcriptionRef :=
              (transcriptionRef s)\<lparr>model := model (transcriptionRef s) @ js_text t\<rparr>\<rparr>)"

definition handle_turnComplete :: "message \<Rightarrow> live_state \<Rightarrow> live_state" where
  "handle_turnComplete m s =
     (if turnComplete m
      then
        (let u = user (transcriptionRef s); md = model (transcriptionRef s);
             s1 = (if u \<noteq> [] \<or> md \<noteq> []
                   then s\<lparr>transcriptions := transcriptions s @ [(User, u), (Model, md)]\<rparr>
                   else s)
         in s1\<lparr>transcriptionRef := \<lparr>user = [], model = []\<rparr>\<rparr>)
      else s)"

text \<open>The four branches that follow the audio branch, in the order of the source.\<close>

definition remaining_branches :: "message \<Rightarrow> live_state \<Rightarrow> live_state" where
  "remaining_branches m s =
     handle_turnComplete m
       (handle_outputTranscription m
         (handle_inputTranscription m
           (handle_interrupted m s)))"

text \<open>
  \<^verbatim>\<open>onmessage\<close> is an asynchronous function. A call runs it up to its end or up to
  the \<^verbatim>\<open>await\<close> of its audio branch, whichever comes first; \<open>now\<close> is the value of
  \<^verbatim>\<open>outputAudioContext.currentTime\<close> at the call. The closure's
  \<^verbatim>\<open>outputAudioContext\<close> is an object, so the test of the audio branch is that of the
  data, a non-empty string. With audio the call raises the cursor to the clock, hands
  the decoded bytes to \<^verbatim>\<open>decodeAudioData\<close> and suspends: the run joins \<open>suspended\<close>,
  and other handlers run before it continues. Without audio it runs the remaining
  branches at once. The result holds the state left behind and, when the run threw, the
  error with which its promise was rejected.
\<close>

definition onmessage ::
  "decoder \<Rightarrow> real \<Rightarrow> message \<Rightarrow> live_state \<Rightarrow> error option \<times> live_state" where
  "onmessage dec now m s =
     (case base64Audio_of m of
        Inl e \<Rightarrow> (Some e, s)
      | Inr None \<Rightarrow> (None, remaining_branches m s)
      | Inr (Some base64Audio) \<Rightarrow>
          if base64Audio = [] then (None, remaining_branches m s)
          else
            (let s1 = s\<lparr>nextStartTimeRef := max (nextStartTimeRef s) now\<rparr>
             in case decode_fn dec base64Audio of
                  Inl e \<Rightarrow> (Some e, s1)
                | Inr data \<Rightarrow> (None, s1\<lparr>suspended := suspended s1 @ [(data, m)]\<rparr>)))"

text \<open>
  The continuation of the suspended run number \<open>k\<close>, when its decoding settles: a
  failure rejects the run; otherwise the frame is scheduled at the cursor as it is now
  and the remaining branches of the run's message follow. Runs may settle in any order.
\<close>

definition onmessage_resumed ::
  "decoder \<Rightarrow> nat \<Rightarrow> live_state \<Rightarrow> error option \<times> live_state" where
  "onmessage_resumed dec k s =
     (if k < length (suspended s)
      then
        (case suspended s ! k of
           (data, m) \<Rightarrow>
             (let s1 = s\<lparr>suspended := take k (suspended s) @ drop (Suc k) (suspended s)\<rparr>
              in case decodeAudioData_fn dec data 24000 1 of
                   Inl e \<Rightarrow> (Some e, s1)
                 | Inr audioBuffer \<Rightarrow>
                     (None, remaining_branches m (schedule audioBuffer s1))))
      else (None, s))"

text \<open>\<^verbatim>\<open>source.onended\<close> deletes the source from the set.\<close>

definition onended :: "nat \<Rightarrow> live_state \<Rightarrow> live_state" where
  "onended src s = s\<lparr>sourcesRef := removeAll src (sourcesRef s)\<rparr>"

text \<open>\<^verbatim>\<open>onerror\<close> logs to the console; \<^verbatim>\<open>onclose\<close> calls \<^verbatim>\<open>stopSession\<close>.\<close>

definition onerror :: "live_state \<Rightarrow> live_state" where
  "onerror s = s"

definition onclose :: "live_state \<Rightarrow> live_state" where
  "onclose s = stopSession s"

subsection \<open>Events\<close>

text \<open>
  What can happen to the component: a click on the button, the failure of
  \<^verbatim>\<open>startSession\<close>, the resolution of the session promise, the callbacks of the session,
  the settling of the decoding a suspended handler awaits, the end of a buffer source,
  and a captured frame. The browser delivers a captured frame for as long as the script
  processor is wired to the stream.
\<close>

datatype event =
    Click
  | StartFailed
  | SessionResolved
  | Opened
  | Message real message
  | DecodeSettled nat
  | SourceEnded nat
  | AudioProcess "real list"
  | ChannelError
  | ChannelClosed

fun handle :: "decoder \<Rightarrow> live_state \<Rightarrow> event \<Rightarrow> live_state" where
  "handle dec s Click = click s"
| "handle dec s StartFailed = startSession_catch s"
| "handle dec s SessionResolved = startSession_resolved s"
| "handle dec s Opened = onopen s"
| "handle dec s (Message now m) = snd (onmessage dec now m s)"
| "handle dec s (DecodeSettled k) = snd (onmessage_resumed dec k s)"
| "handle dec s (SourceEnded src) = onended src s"
| "handle dec s (AudioProcess inputData) =
     (if capture_connected s then onaudioprocess inputData s else s)"
| "handle dec s ChannelError = onerror s"
| "handle dec s ChannelClosed = onclose s"

definition run :: "decoder \<Rightarrow> live_state \<Rightarrow> event list \<Rightarrow> live_state" where
  "run dec s es = foldl (handle dec) s es"

text \<open>Messages that carry one thing only.\<close>

definition no_message :: message where
  "no_message =
     \<lparr>modelTurn = None, interrupted = False, inputTranscription = None,
      outputTranscription = None, turnComplete = False\<rparr>"

definition audio_message :: "string \<Rightarrow> message" where
  "audio_message d = no_message\<lparr>modelTurn := Some (ModelTurn (Some [Some d]))\<rparr>"

definition interrupted_message :: message where
  "interrupted_message = no_message\<lparr>interrupted := True\<rparr>"

definition turnComplete_message :: message where
  "turnComplete_message = no_message\<lparr>turnComplete := True\<rparr>"

definition input_message :: "string \<Rightarrow> message" where
  "input_message t = no_message\<lparr>inputTranscription := Some (Transcription (Some t))\<rparr>"

definition output_message :: "string \<Rightarrow> message" where
  "output_message t = no_message\<lparr>outputTranscription := Some (Transcription (Some t))\<rparr>"

subsection \<open>Observing the schedule\<close>

text \<open>The start times passed to \<^verbatim>\<open>source.start\<close>, in the order of the calls.\<close>

fun start_times :: "effect list \<Rightarrow> real list" where
  "start_times [] = []"
| "start_times (SourceStart src w d # es) = w # start_times es"
| "start_times (e # es) = start_times es"

text \<open>
  The scheduler as the specification words it, over the pairs of the clock's value at
  the call and the frame's duration: \<open>startTime = max(cursor, clockNow())\<close>, then
  \<open>cursor = startTime + frame.duration\<close>. \<open>spec_schedule\<close> lists the start times and
  \<open>spec_cursor\<close> is the cursor after the last frame.
\<close>

fun spec_schedule :: "real \<Rightarrow> (real \<times> real) list \<Rightarrow> real list" where
  "spec_schedule cursor [] = []"
| "spec_schedule cursor ((now, dur) # fs) =
     max cursor now # spec_schedule (max cursor now + dur) fs"

fun spec_cursor :: "real \<Rightarrow> (real \<times> real) list \<Rightarrow> real" where
  "spec_cursor cursor [] = cursor"
| "spec_cursor cursor ((now, dur) # fs) = spec_cursor (max cursor now + dur) fs"

text \<open>
  Frames are back to back from a cursor when every call comes no later than the end of
  the frame before it; gap-free playback from \<open>t\<close> starts every frame where the
  previous one ends.
\<close>

fun back_to_back :: "real \<Rightarrow> (real \<times> real) list \<Rightarrow> bool" where
  "back_to_back cursor [] = True"
| "back_to_back cursor ((now, dur) # fs) = (now \<le> cursor \<and> back_to_back (cursor + dur) fs)"

fun gap_free :: "real \<Rightarrow> real list \<Rightarrow> real list" where
  "gap_free t [] = []"
| "gap_free t (dur # durs) = t # gap_free (t + dur) durs"

text \<open>
  Awaited delivery: audio chunks arriving in order, each with the clock's value at its
  arrival and each decoded before anything else happens. \<open>timed\<close> gives the same
  chunks as the pairs the specification's scheduler takes.
\<close>

fun awaited_events :: "(real \<times> string) list \<Rightarrow> event list" where
  "awaited_events [] = []"
| "awaited_events ((now, d) # chunks) =
     Message now (audio_message d) # DecodeSettled 0 # awaited_events chunks"

definition decodes :: "decoder \<Rightarrow> (real \<times> string) \<Rightarrow> bool" where
  "decodes dec chunk = (snd chunk \<noteq> [] \<and> isl (decoded dec (snd chunk)) = False)"

definition timed :: "decoder \<Rightarrow> (real \<times> string) list \<Rightarrow> (real \<times> real) list" where
  "timed dec chunks =
     map (\<lambda>(now, d). (now, case decoded dec d of Inl e \<Rightarrow> 0 | Inr b \<Rightarrow> duration b)) chunks"

text \<open>
  A decoder for examples whose frames last half a second per character of data: a
  stand-in with short inputs for the 24 kHz decoder.
\<close>

definition half_second_decoder :: decoder where
  "half_second_decoder =
     \<lparr>decode_fn = (\<lambda>d. Inr (replicate (length d) 0)),
      decodeAudioData_fn = (\<lambda>data rate channels.
        Inr \<lparr>samples = replicate (length data) 0, sampleRate = 2, numberOfChannels = 1\<rparr>)\<rparr>"

text \<open>
  The events that may lower the cursor: a message with the \<open>interrupted\<close> flag, handled
  at once or when its suspended run continues, the close of the channel, and a click on
  the button of an active session (both run \<^verbatim>\<open>stopSession\<close>).
\<close>

fun resets_cursor :: "live_state \<Rightarrow> event \<Rightarrow> bool" where
  "resets_cursor s (Message now m) = interrupted m"
| "resets_cursor s (DecodeSettled k) =
     (k < length (suspended s) \<and> interrupted (snd (suspended s ! k)))"
| "resets_cursor s ChannelClosed = True"
| "resets_cursor s Click = (isActive s \<and> isConnecting s = False)"
| "resets_cursor s e = False"

text \<open>
  An open session: the button is clicked, the session promise resolves, the channel
  opens, one second of audio arrives at time 5 and is decoded, and the user's words
  \<open>hel\<close> are transcribed.
\<close>

definition open_session_events :: "event list" where
  "open_session_events =
     [Click, SessionResolved, Opened, Message 5 (audio_message ''ab''), DecodeSettled 0,
      Message 5 (input_message ''hel'')]"

definition open_session :: live_state where
  "open_session = run half_second_decoder initial_state open_session_events"

section \<open>The codec\<close>

subsection \<open>Base64 is reversible\<close>

lemma b64_index_char: "n < 64 \<Longrightarrow> b64_index (b64_char n) = Some n"
  by (auto simp: b64_index_def b64_char_def Let_def)

lemma b64_index_pad: "b64_index CHR ''='' = None"
  by (simp add: b64_index_def)

lemma b64_char_not_pad: "n < 64 \<Longrightarrow> b64_char n \<noteq> CHR ''=''"
  using b64_index_char [of n] b64_index_pad by auto

lemma unat_byte_lt: "unat (a :: byte) < 256"
  using unsigned_less [of a, where 'a = nat] by simp

lemma sextets_lt:
  "unat (a :: byte) div 4 < 64"
  "unat (a :: byte) mod 4 * 16 + unat (b :: byte) div 16 < 64"
  "unat (b :: byte) mod 16 * 4 + unat (c :: byte) div 64 < 64"
  "unat (c :: byte) mod 64 < 64"
  "unat (a :: byte) mod 4 * 16 < 64"
  "unat (b :: byte) mod 16 * 4 < 64"
  using unat_byte_lt [of a] unat_byte_lt [of b] unat_byte_lt [of c] by simp_all

lemma octet1: "(of_nat (unat (a :: byte) div 4 * 4 + (unat a mod 4 * 16 + unat (b :: byte) div 16) div 16) :: byte) = a"
proof -
  have "unat b div 16 < 16" using unat_byte_lt [of b] by simp
  then have "(unat a mod 4 * 16 + unat b div 16) div 16 = unat a mod 4" by simp
  then show ?thesis by simp
qed

lemma octet1': "(of_nat (unat (a :: byte) div 4 * 4 + (unat a mod 4 * 16) div 16) :: byte) = a"
  by simp

lemma octet2: "(of_nat ((unat (a :: byte) mod 4 * 16 + unat (b :: byte) div 16) mod 16 * 16
                  + (unat b mod 16 * 4 + unat (c :: byte) div 64) div 4) :: byte) = b"
proof -
  have "unat b div 16 < 16" using unat_byte_lt [of b] by simp
  then have 1: "(unat a mod 4 * 16 + unat b div 16) mod 16 = unat b div 16" by simp
  have "unat c div 64 < 4" using unat_byte_lt [of c] by simp
  then have 2: "(unat b mod 16 * 4 + unat c div 64) div 4 = unat b mod 16" by simp
  show ?thesis unfolding 1 2 by simp
qed

lemma octet2': "(of_nat ((unat (a :: byte) mod 4 * 16 + unat (b :: byte) div 16) mod 16 * 16
                  + (unat b mod 16 * 4) div 4) :: byte) = b"
proof -
  have "unat b div 16 < 16" using unat_byte_lt [of b] by simp
  then have 1: "(unat a mod 4 * 16 + unat b div 16) mod 16 = unat b div 16" by simp
  show ?thesis unfolding 1 by simp
qed

lemma octet3: "(of_nat ((unat (b :: byte) mod 16 * 4 + unat (c :: byte) div 64) mod 4 * 64
                  + unat c mod 64) :: byte) = c"
proof -
  have "unat c div 64 < 4" using unat_byte_lt [of c] by simp
  then have 1: "(unat b mod 16 * 4 + unat c div 64) mod 4 = unat c div 64" by simp
  show ?thesis unfolding 1 by simp
qed

lemma decode_quad_encode:
  "decode_quad (b64_char (unat a div 4)) (b64_char (unat a mod 4 * 16 + unat b div 16))
               (b64_char (unat b mod 16 * 4 + unat c div 64)) (b64_char (unat c mod 64))
   = Some [a, b, c]"
  unfolding decode_quad_def
  by (simp only: b64_index_char sextets_lt prod.case option.case octet1 octet2 octet3)

lemma decode_last_full:
  "decode_last (b64_char (unat a div 4)) (b64_char (unat a mod 4 * 16 + unat b div 16))
               (b64_char (unat b mod 16 * 4 + unat c div 64)) (b64_char (unat c mod 64))
   = Some [a, b, c]"
  unfolding decode_last_def
  using b64_char_not_pad [OF sextets_lt(4), of c] decode_quad_encode [of a b c]
  by simp

lemma decode_last_two:
  "decode_last (b64_char (unat a div 4)) (b64_char (unat a mod 4 * 16 + unat b div 16))
               (b64_char (unat b mod 16 * 4)) CHR ''='' = Some [a, b]"
  unfolding decode_last_def
  using b64_char_not_pad [OF sextets_lt(6), of b]
  by (simp only: b64_index_char sextets_lt prod.case option.case octet1 octet2' simp_thms if_False if_True)

lemma decode_last_one:
  "decode_last (b64_char (unat a div 4)) (b64_char (unat a mod 4 * 16)) CHR ''='' CHR ''=''
     = Some [a]"
  unfolding decode_last_def
  by (simp only: b64_index_char sextets_lt prod.case option.case octet1' simp_thms if_True)

lemma decode_encode: "decode (encode bs) = Inr bs"
proof (induction bs rule: encode.induct)
  case (1 a b c rest)
  show ?case
  proof (cases "encode rest")
    case Nil
    then have "rest = []" by (cases rest rule: encode.cases) simp_all
    then show ?thesis by (simp add: decode_last_full)
  next
    case (Cons x xs)
    then show ?thesis using 1 by (simp add: decode_quad_encode)
  qed
qed (simp_all add: decode_last_two decode_last_one)

subsection \<open>Bytes of the 16-bit samples\<close>

lemma int16_of_bytes_int16_bytes:
  "push_bit 8 (ucast (ucast (drop_bit 8 w) :: byte)) OR ucast (ucast w :: byte) = (w :: int16)"
  by (rule bit_word_eqI) (auto simp: bit_simps)

lemma int16_view_uint8_view: "int16_view (uint8_view ws) = Inr ws"
  by (induction ws) (simp_all add: uint8_view_def int16_bytes_def int16_of_bytes_int16_bytes)

lemma int16_bytes_unat: "map unat (int16_bytes w) = [unat w mod 256, unat w div 256]"
proof -
  have "unat w < 65536" using unsigned_less [of w, where 'a = nat] by simp
  then have "unat w div 256 < 256" by simp
  then show ?thesis
    by (simp add: int16_bytes_def unsigned_ucast_eq unat_drop_bit_eq drop_bit_eq_div
        take_bit_eq_mod unat_div)
qed

text \<open>
  What comes back from the wire, for every frame: each sample scaled, converted by
  ToInt16, read as a signed value and divided by 32768.
\<close>

lemma decode_inbound_pcm_blob_data:
  "decode_inbound (pcm_blob_data xs) =
     Inr \<lparr>samples = map (\<lambda>x. real_of_int (sint (ToInt16 (x * 32768))) / 32768) xs,
          sampleRate = 24000, numberOfChannels = 1\<rparr>"
  by (simp add: decode_inbound_def pcm_blob_data_def decode_encode decodeAudioData_def
      int16_view_uint8_view int16_of_samples_def comp_def)

subsection \<open>Truncation\<close>

lemma js_truncate_bounds:
  assumes "- 32768 \<le> v" and "v < 32768"
  shows "- 32768 \<le> js_truncate v" and "js_truncate v \<le> 32767"
proof -
  show "- 32768 \<le> js_truncate v"
    using assms by (auto simp: js_truncate_def le_floor_iff le_ceiling_iff)
  have "js_truncate v < 32768"
    using assms by (auto simp: js_truncate_def floor_less_iff ceiling_less_iff)
  then show "js_truncate v \<le> 32767" by simp
qed

lemma js_truncate_error: "\<bar>real_of_int (js_truncate v) - v\<bar> < 1"
  unfolding js_truncate_def by (auto; linarith)

lemma sint_ToInt16:
  assumes "- 32768 \<le> v" and "v < 32768"
  shows "sint (ToInt16 v) = js_truncate v"
proof -
  have "- 32768 \<le> js_truncate v" "js_truncate v \<le> 32767"
    using js_truncate_bounds [OF assms] by simp_all
  then show ?thesis
    unfolding ToInt16_def by (simp add: int_word_sint)
qed

lemma sample_quantised:
  assumes "- 1 \<le> x" and "x < 1"
  shows "sint (ToInt16 (x * 32768)) = js_truncate (x * 32768)"
    and "- 32768 \<le> js_truncate (x * 32768)"
    and "js_truncate (x * 32768) \<le> 32767"
proof -
  have r: "- 32768 \<le> x * 32768" "x * 32768 < 32768" using assms by simp_all
  show "sint (ToInt16 (x * 32768)) = js_truncate (x * 32768)" by (rule sint_ToInt16 [OF r])
  show "- 32768 \<le> js_truncate (x * 32768)" by (rule js_truncate_bounds(1) [OF r])
  show "js_truncate (x * 32768) \<le> 32767" by (rule js_truncate_bounds(2) [OF r])
qed

text \<open>
  Below full scale the round trip loses less than one quantisation step per sample.
\<close>

lemma round_trip_below_full_scale:
  assumes "list_all (\<lambda>x. - 1 \<le> x \<and> x < 1) xs"
  shows "\<exists>ys. decode_inbound (pcm_blob_data xs) =
               Inr \<lparr>samples = ys, sampleRate = 24000, numberOfChannels = 1\<rparr>
             \<and> length ys = length xs
             \<and> (\<forall>i < length xs. \<bar>ys ! i - xs ! i\<bar> < 1 / 32768)"
proof -
  let ?ys = "map (\<lambda>x. real_of_int (sint (ToInt16 (x * 32768))) / 32768) xs"
  have "\<bar>?ys ! i - xs ! i\<bar> < 1 / 32768" if "i < length xs" for i
  proof -
    have x: "- 1 \<le> xs ! i" "xs ! i < 1"
      using assms that by (simp_all add: list_all_length)
    have "\<bar>real_of_int (js_truncate (xs ! i * 32768)) - xs ! i * 32768\<bar> < 1"
      by (rule js_truncate_error)
    then have e: "\<bar>real_of_int (js_truncate (xs ! i * 32768)) / 32768 - xs ! i\<bar> < 1 / 32768"
      by (simp add: field_simps abs_less_iff)
    have q: "real_of_int (sint (ToInt16 (xs ! i * 32768))) =
               real_of_int (js_truncate (xs ! i * 32768))"
      by (simp only: sample_quantised(1) [OF x])
    show ?thesis
      using that e q by simp
  qed
  then show ?thesis
    using decode_inbound_pcm_blob_data [of xs] by auto
qed

text \<open>
  Claim C4. For samples in \<open>[-1, 1)\<close> the capture callback stores, for each sample
  \<open>x\<close>, the integer obtained from \<open>x * 32768\<close> by truncation towards zero; that integer
  lies in the 16-bit range \<open>[-32768, 32767]\<close> (nothing wraps) and differs from
  \<open>x * 32768\<close> by less than one. The integers are laid out low byte first, two bytes
  each, and the blob's data is the base64 text of these bytes.
\<close>

theorem quantisation_truncates_below_full_scale:
  assumes "list_all (\<lambda>x. - 1 \<le> x \<and> x < 1) inputData"
  shows "map sint (int16_of_samples inputData) = map (\<lambda>x. js_truncate (x * 32768)) inputData
       \<and> list_all (\<lambda>x. - 32768 \<le> js_truncate (x * 32768) \<and> js_truncate (x * 32768) \<le> 32767
                      \<and> \<bar>real_of_int (js_truncate (x * 32768)) - x * 32768\<bar> < 1) inputData
       \<and> map unat (uint8_view (int16_of_samples inputData)) =
           concat (map (\<lambda>w. [unat w mod 256, unat w div 256]) (int16_of_samples inputData))
       \<and> pcm_blob_data inputData = encode (uint8_view (int16_of_samples inputData))"
proof (intro conjI)
  show "map sint (int16_of_samples inputData) = map (\<lambda>x. js_truncate (x * 32768)) inputData"
    using assms by (induction inputData) (simp_all add: int16_of_samples_def sample_quantised(1))
  show "list_all (\<lambda>x. - 32768 \<le> js_truncate (x * 32768) \<and> js_truncate (x * 32768) \<le> 32767
                      \<and> \<bar>real_of_int (js_truncate (x * 32768)) - x * 32768\<bar> < 1) inputData"
    using assms
    by (induction inputData) (simp_all add: sample_quantised(2,3) js_truncate_error)
  show "map unat (uint8_view (int16_of_samples inputData)) =
          concat (map (\<lambda>w. [unat w mod 256, unat w div 256]) (int16_of_samples inputData))"
    unfolding uint8_view_def
    by (induction "int16_of_samples inputData" arbitrary: inputData)
       (simp_all add: map_concat comp_def int16_bytes_unat)
  show "pcm_blob_data inputData = encode (uint8_view (int16_of_samples inputData))"
    by (simp add: pcm_blob_data_def)
qed

theorem quantisation_truncates_below_full_scale_witness:
  "list_all (\<lambda>x. - 1 \<le> x \<and> x < 1) [3 / 131072, - 1, - 5 / 65536 :: real]
   \<and> map sint (int16_of_samples [3 / 131072, - 1, - 5 / 65536]) = [0, - 32768, - 2]
   \<and> map unat (uint8_view (int16_of_samples [3 / 131072, - 1, - 5 / 65536])) =
       [0, 0, 0, 128, 254, 255]"
proof -
  have h: "list_all (\<lambda>x. - 1 \<le> x \<and> x < 1) [3 / 131072, - 1, - 5 / 65536 :: real]"
    by simp
  show ?thesis
    using h quantisation_truncates_below_full_scale [OF h]
    by (simp add: js_truncate_def int16_of_samples_def ToInt16_def)
qed

text \<open>
  The quantisation of the specification rounds: at the sample \<open>3/131072\<close>, three
  quarters of a quantisation step, it gives 1 where the callback stores 0.
\<close>

theorem quantisation_rounds_counterexample:
  "map sint (int16_of_samples [3 / 131072]) = [0] \<and> map spec_quantize [3 / 131072] = [1]"
  by (simp add: int16_of_samples_def ToInt16_def js_truncate_def spec_quantize_def round_def)

text \<open>
  Claim C3. The round trip at the full-scale sample \<open>1.0\<close>: the product 32768 does
  not fit 16 bits, ToInt16 wraps it to \<open>-32768\<close>, and the decoder returns \<open>-1.0\<close>. The
  sample comes back at distance 2 from the original, not within \<open>1/32768\<close>.
\<close>

theorem full_scale_sample_round_trip:
  "decode_inbound (pcm_blob_data [1]) =
     Inr \<lparr>samples = [- 1], sampleRate = 24000, numberOfChannels = 1\<rparr>
   \<and> \<not> \<bar>(- 1 :: real) - 1\<bar> \<le> 1 / 32768"
  by (simp add: decode_inbound_pcm_blob_data ToInt16_def js_truncate_def)

section \<open>The session\<close>

lemma duration_nonneg: "0 \<le> duration b"
  by (simp add: duration_def)

lemma run_Nil: "run dec s [] = s"
  by (simp add: run_def)

lemma run_Cons: "run dec s (e # es) = run dec (handle dec s e) es"
  by (simp add: run_def)

lemma start_times_append: "start_times (es @ es') = start_times es @ start_times es'"
  by (induction es rule: start_times.induct) simp_all

lemma start_times_SourceStop: "start_times (map SourceStop xs) = []"
  by (induction xs) simp_all

lemma schedule_fields:
  "effects (schedule b s) =
     effects s @ [SourceStart (sources_created s) (nextStartTimeRef s) (duration b)]"
  "nextStartTimeRef (schedule b s) = nextStartTimeRef s + duration b"
  "sourcesRef (schedule b s) = sourcesRef s @ [sources_created s]"
  "suspended (schedule b s) = suspended s"
  by (simp_all add: schedule_def)

subsection \<open>Single messages\<close>

lemma remaining_branches_audio: "remaining_branches (audio_message d) s = s"
  by (simp add: remaining_branches_def audio_message_def no_message_def
      handle_interrupted_def handle_inputTranscription_def handle_outputTranscription_def
      handle_turnComplete_def)

lemma onmessage_audio:
  assumes "d \<noteq> []" and "decode_fn dec d = Inr data"
  shows "onmessage dec now (audio_message d) s =
           (None, s\<lparr>nextStartTimeRef := max (nextStartTimeRef s) now,
                    suspended := suspended s @ [(data, audio_message d)]\<rparr>)"
  using assms
  by (simp add: onmessage_def base64Audio_of_def audio_message_def no_message_def)

lemma onmessage_resumed_head:
  assumes "suspended s = (data, audio_message d) # rest"
    and "decodeAudioData_fn dec data 24000 1 = Inr b"
  shows "onmessage_resumed dec 0 s = (None, schedule b (s\<lparr>suspended := rest\<rparr>))"
  using assms by (simp add: onmessage_resumed_def remaining_branches_audio)

lemma onmessage_interrupted:
  "onmessage dec now interrupted_message s =
     (None, s\<lparr>effects := effects s @ map SourceStop (sourcesRef s),
              sourcesRef := [], nextStartTimeRef := 0\<rparr>)"
  by (simp add: onmessage_def base64Audio_of_def interrupted_message_def no_message_def
      remaining_branches_def handle_interrupted_def handle_inputTranscription_def
      handle_outputTranscription_def handle_turnComplete_def)

lemma onmessage_turnComplete:
  "onmessage dec now turnComplete_message s =
     (None, handle_turnComplete turnComplete_message s)"
  by (simp add: onmessage_def base64Audio_of_def turnComplete_message_def no_message_def
      remaining_branches_def handle_interrupted_def handle_inputTranscription_def
      handle_outputTranscription_def)

lemma handle_turnComplete_flush:
  "handle_turnComplete turnComplete_message s =
     s\<lparr>transcriptions := transcriptions s @
           (if user (transcriptionRef s) = [] \<and> model (transcriptionRef s) = [] then []
            else [(User, user (transcriptionRef s)), (Model, model (transcriptionRef s))]),
       transcriptionRef := \<lparr>user = [], model = []\<rparr>\<rparr>"
  by (simp add: handle_turnComplete_def turnComplete_message_def no_message_def Let_def)

lemma onmessage_input:
  "onmessage dec now (input_message t) s =
     (None, s\<lparr>transcriptionRef := (transcriptionRef s)\<lparr>user := user (transcriptionRef s) @ t\<rparr>\<rparr>)"
  by (simp add: onmessage_def base64Audio_of_def input_message_def no_message_def
      remaining_branches_def handle_interrupted_def handle_inputTranscription_def
      handle_outputTranscription_def handle_turnComplete_def js_text_def)

lemma onmessage_output:
  "onmessage dec now (output_message t) s =
     (None, s\<lparr>transcriptionRef := (transcriptionRef s)\<lparr>model := model (transcriptionRef s) @ t\<rparr>\<rparr>)"
  by (simp add: onmessage_def base64Audio_of_def output_message_def no_message_def
      remaining_branches_def handle_interrupted_def handle_inputTranscription_def
      handle_outputTranscription_def handle_turnComplete_def js_text_def)

text \<open>
  A chunk that arrives while no run is suspended and is decoded before anything else
  happens: the frame starts at the maximum of the cursor and the clock at the arrival.
\<close>

lemma awaited_chunk:
  assumes "suspended s = []" and "d \<noteq> []" and "decoded dec d = Inr b"
  shows "run dec s [Message now (audio_message d), DecodeSettled 0] =
           schedule b (s\<lparr>nextStartTimeRef := max (nextStartTimeRef s) now\<rparr>)"
proof -
  from assms(3) obtain data where data: "decode_fn dec d = Inr data"
    and b: "decodeAudioData_fn dec data 24000 1 = Inr b"
    by (auto simp: decoded_def split: sum.splits)
  let ?s1 = "s\<lparr>nextStartTimeRef := max (nextStartTimeRef s) now,
               suspended := suspended s @ [(data, audio_message d)]\<rparr>"
  have first: "handle dec s (Message now (audio_message d)) = ?s1"
    using onmessage_audio [of d dec data now s] assms(2) data by simp
  have waiting: "suspended ?s1 = (data, audio_message d) # []"
    using assms(1) by simp
  have second: "handle dec ?s1 (DecodeSettled 0) = schedule b (?s1\<lparr>suspended := []\<rparr>)"
    using onmessage_resumed_head [OF waiting, of dec b] b by simp
  have same: "s\<lparr>suspended := []\<rparr> = s"
    using assms(1) by (cases s) simp
  have "?s1\<lparr>suspended := []\<rparr> =
          (s\<lparr>suspended := []\<rparr>)\<lparr>nextStartTimeRef := max (nextStartTimeRef s) now\<rparr>"
    by simp
  then have "?s1\<lparr>suspended := []\<rparr> = s\<lparr>nextStartTimeRef := max (nextStartTimeRef s) now\<rparr>"
    by (simp only: same)
  then show ?thesis
    unfolding run_Cons run_Nil first second by simp
qed

text \<open>The two decoders on the examples' data.\<close>

lemma half_second_decoder_decoded:
  "decoded half_second_decoder d =
     Inr \<lparr>samples = replicate (length d) 0, sampleRate = 2, numberOfChannels = 1\<rparr>"
  "decode_fn half_second_decoder d = Inr (replicate (length d) 0)"
  "decodeAudioData_fn half_second_decoder data 24000 1 =
     Inr \<lparr>samples = replicate (length data) 0, sampleRate = 2, numberOfChannels = 1\<rparr>"
  by (simp_all add: decoded_def half_second_decoder_def)

lemma audioUtils_decoded: "decoded audioUtils base64Audio = decode_inbound base64Audio"
  by (cases "decode base64Audio") (simp_all add: decoded_def audioUtils_def decode_inbound_def)

lemma open_session_eq:
  "open_session =
     \<lparr>isActive = True, isConnecting = False, transcriptions = [],
      sessionRef = True, audioContextRef = True, nextStartTimeRef = 6,
      sourcesRef = [0], transcriptionRef = \<lparr>user = ''hel'', model = []\<rparr>,
      capture_connected = True, sources_created = 1,
      effects = [SourceStart 0 5 1], suspended = []\<rparr>"
proof -
  let ?s3 = "run half_second_decoder initial_state [Click, SessionResolved, Opened]"
  have s3: "?s3 =
     \<lparr>isActive = True, isConnecting = False, transcriptions = [],
      sessionRef = True, audioContextRef = True, nextStartTimeRef = 0,
      sourcesRef = [], transcriptionRef = \<lparr>user = [], model = []\<rparr>,
      capture_connected = True, sources_created = 0, effects = [], suspended = []\<rparr>"
    by (simp add: run_Cons run_Nil click_def initial_state_def startSession_begin_def
        startSession_resolved_def onopen_def)
  have idle: "suspended ?s3 = []" unfolding s3 by simp
  have d: "''ab'' \<noteq> []"
    "decoded half_second_decoder ''ab'' =
       Inr \<lparr>samples = [0, 0], sampleRate = 2, numberOfChannels = 1\<rparr>"
    by (simp_all add: half_second_decoder_decoded)
  have split: "open_session =
      handle half_second_decoder
        (run half_second_decoder ?s3 [Message 5 (audio_message ''ab''), DecodeSettled 0])
        (Message 5 (input_message ''hel''))"
    by (simp add: open_session_def open_session_events_def run_Cons run_Nil)
  have played: "run half_second_decoder ?s3 [Message 5 (audio_message ''ab''), DecodeSettled 0] =
     \<lparr>isActive = True, isConnecting = False, transcriptions = [],
      sessionRef = True, audioContextRef = True, nextStartTimeRef = 6,
      sourcesRef = [0], transcriptionRef = \<lparr>user = [], model = []\<rparr>,
      capture_connected = True, sources_created = 1,
      effects = [SourceStart 0 5 1], suspended = []\<rparr>"
    unfolding awaited_chunk [OF idle d]
    by (simp add: s3 schedule_def duration_def)
  show ?thesis
    unfolding split played by (simp add: onmessage_input)
qed

subsection \<open>Awaited delivery\<close>

text \<open>
  When every chunk is decoded before the next event, the start times are those of the
  specification's scheduler, and back-to-back frames play gap-free.
\<close>

lemma run_awaited_events:
  assumes "list_all (decodes dec) chunks" and "suspended s = []"
  shows "start_times (effects (run dec s (awaited_events chunks))) =
           start_times (effects s) @ spec_schedule (nextStartTimeRef s) (timed dec chunks)
       \<and> nextStartTimeRef (run dec s (awaited_events chunks)) =
           spec_cursor (nextStartTimeRef s) (timed dec chunks)
       \<and> suspended (run dec s (awaited_events chunks)) = []"
  using assms
proof (induction chunks arbitrary: s)
  case Nil
  then show ?case by (simp add: timed_def run_Nil)
next
  case (Cons c cs)
  obtain now d where c: "c = (now, d)" by (cases c)
  from Cons.prems(1) c obtain b where d: "d \<noteq> []" "decoded dec d = Inr b"
    by (cases "decoded dec d") (auto simp: decodes_def)
  let ?s1 = "schedule b (s\<lparr>nextStartTimeRef := max (nextStartTimeRef s) now\<rparr>)"
  have step: "run dec s [Message now (audio_message d), DecodeSettled 0] = ?s1"
    by (rule awaited_chunk [OF Cons.prems(2) d])
  have ev: "run dec s (awaited_events (c # cs)) = run dec ?s1 (awaited_events cs)"
    using step by (simp add: c run_Cons run_Nil)
  have rest: "list_all (decodes dec) cs" using Cons.prems(1) by simp
  have idle: "suspended ?s1 = []" using Cons.prems(2) by (simp add: schedule_fields)
  have tm: "timed dec (c # cs) = (now, duration b) # timed dec cs"
    by (simp add: timed_def c d)
  show ?case
    unfolding ev tm
    using Cons.IH [OF rest idle]
    by (simp add: schedule_fields start_times_append)
qed

lemma back_to_back_gap_free:
  "back_to_back cursor fs \<Longrightarrow> spec_schedule cursor fs = gap_free cursor (map snd fs)"
proof (induction cursor fs rule: back_to_back.induct)
  case (1 cursor)
  then show ?case by simp
next
  case (2 cursor now dur fs)
  then have "max cursor now = cursor" by simp
  with 2 show ?case by simp
qed

lemma three_frames:
  assumes "now2 \<le> max c now1 + 1" and "now3 \<le> max c now1 + 3 / 2"
  shows "spec_schedule c [(now1, 1), (now2, 1 / 2), (now3, 2)] =
           [max c now1, max c now1 + 1, max c now1 + 3 / 2]"
  using assms by (simp add: max_absorb1)

lemma awaited_schedule_sequence:
  assumes "list_all (decodes dec) chunks" and "suspended s = []"
  shows "start_times (effects (run dec s (awaited_events chunks))) =
           start_times (effects s) @ spec_schedule (nextStartTimeRef s) (timed dec chunks)
       \<and> nextStartTimeRef (run dec s (awaited_events chunks)) =
           spec_cursor (nextStartTimeRef s) (timed dec chunks)
       \<and> (case timed dec chunks of
            [] \<Rightarrow> True
          | (now, dur) # fs \<Rightarrow>
              back_to_back (max (nextStartTimeRef s) now + dur) fs \<longrightarrow>
              spec_schedule (nextStartTimeRef s) (timed dec chunks) =
                gap_free (max (nextStartTimeRef s) now) (dur # map snd fs))
       \<and> (timed dec chunks = [(now1, 1), (now2, 1 / 2), (now3, 2)] \<longrightarrow>
          now2 \<le> max (nextStartTimeRef s) now1 + 1 \<longrightarrow>
          now3 \<le> max (nextStartTimeRef s) now1 + 3 / 2 \<longrightarrow>
          start_times (effects (run dec s (awaited_events chunks))) =
            start_times (effects s) @
              [max (nextStartTimeRef s) now1, max (nextStartTimeRef s) now1 + 1,
               max (nextStartTimeRef s) now1 + 3 / 2])"
proof -
  have "spec_schedule c ((now, dur) # fs) = gap_free (max c now) (dur # map snd fs)"
    if "back_to_back (max c now + dur) fs" for c now dur fs
    using back_to_back_gap_free [OF that] by simp
  then have gaps: "case timed dec chunks of
            [] \<Rightarrow> True
          | (now, dur) # fs \<Rightarrow>
              back_to_back (max (nextStartTimeRef s) now + dur) fs \<longrightarrow>
              spec_schedule (nextStartTimeRef s) (timed dec chunks) =
                gap_free (max (nextStartTimeRef s) now) (dur # map snd fs)"
    by (cases "timed dec chunks") auto
  note code = run_awaited_events [OF assms]
  have three: "start_times (effects (run dec s (awaited_events chunks))) =
            start_times (effects s) @
              [max (nextStartTimeRef s) now1, max (nextStartTimeRef s) now1 + 1,
               max (nextStartTimeRef s) now1 + 3 / 2]"
    if "timed dec chunks = [(now1, 1), (now2, 1 / 2), (now3, 2)]"
      and "now2 \<le> max (nextStartTimeRef s) now1 + 1"
      and "now3 \<le> max (nextStartTimeRef s) now1 + 3 / 2"
    using code three_frames [OF that(2,3)] by (simp only: that(1))
  from code gaps three show ?thesis by blast
qed

subsection \<open>Handlers that overlap\<close>

text \<open>A chunk arrives and its run is suspended, for the examples' decoder.\<close>

lemma chunk_arrives:
  assumes "d \<noteq> []"
  shows "onmessage half_second_decoder now (audio_message d) s =
           (None, s\<lparr>nextStartTimeRef := max (nextStartTimeRef s) now,
             suspended := suspended s @ [(replicate (length d) 0, audio_message d)]\<rparr>)"
  using onmessage_audio [of d half_second_decoder "replicate (length d) 0" now s] assms
  by (simp add: half_second_decoder_decoded)

lemmas settles =
  onmessage_resumed_def Let_def half_second_decoder_def remaining_branches_audio
  schedule_def duration_def

text \<open>
  Claim C1. Two chunks of 1 s and 1/2 s arrive at clock values 5 and 5.3, the second
  while the first is still being decoded. The specification's scheduler starts them at
  5 and 6. The handlers start them at 5.3 and 6.3 when the decodings settle in the
  order of arrival, and start the second chunk first, at 5.3, and the first chunk after
  it, at 5.8, when the second decoding settles first.
\<close>

theorem overlapping_chunks_start_times:
  "spec_schedule 0 [(5, 1), (53 / 10, 1 / 2)] = [5, 6]
   \<and> effects (run half_second_decoder initial_state
        [Message 5 (audio_message ''ab''), Message (53 / 10) (audio_message ''a''),
         DecodeSettled 0, DecodeSettled 0]) =
       [SourceStart 0 (53 / 10) 1, SourceStart 1 (63 / 10) (1 / 2)]
   \<and> effects (run half_second_decoder initial_state
        [Message 5 (audio_message ''ab''), Message (53 / 10) (audio_message ''a''),
         DecodeSettled 1, DecodeSettled 0]) =
       [SourceStart 0 (53 / 10) (1 / 2), SourceStart 1 (58 / 10) 1]"
proof -
  let ?a = "(replicate (length ''ab'') (0::byte), audio_message ''ab'')"
  let ?b = "(replicate (length ''a'') (0::byte), audio_message ''a'')"
  let ?s2 = "initial_state\<lparr>nextStartTimeRef := 53 / 10, suspended := [?a, ?b]\<rparr>"
  have arrived: "run half_second_decoder initial_state
        [Message 5 (audio_message ''ab''), Message (53 / 10) (audio_message ''a'')] = ?s2"
    by (simp add: run_Cons run_Nil chunk_arrives initial_state_def)
  have in_order: "effects (run half_second_decoder ?s2 [DecodeSettled 0, DecodeSettled 0]) =
       [SourceStart 0 (53 / 10) 1, SourceStart 1 (63 / 10) (1 / 2)]"
    by (simp add: run_Cons run_Nil settles initial_state_def)
  have reversed: "effects (run half_second_decoder ?s2 [DecodeSettled 1, DecodeSettled 0]) =
       [SourceStart 0 (53 / 10) (1 / 2), SourceStart 1 (58 / 10) 1]"
    by (simp add: run_Cons run_Nil settles initial_state_def)
  have "run half_second_decoder initial_state
        [Message 5 (audio_message ''ab''), Message (53 / 10) (audio_message ''a''), e1, e2] =
        run half_second_decoder ?s2 [e1, e2]" for e1 e2
    using arrived by (simp add: run_Cons run_Nil)
  then show ?thesis
    using in_order reversed by simp
qed

subsection \<open>Interruption\<close>

text \<open>
  A message carrying only the \<open>interrupted\<close> flag stops every source of the active set
  in the same run of the handler, empties the set and sets the cursor to zero; when no
  run is suspended, the next chunk, arriving at a clock value \<open>now \<ge> 0\<close> and decoded
  before anything else happens, starts at \<open>now\<close>.
\<close>

lemma interruption_stops_and_resets:
  assumes "0 \<le> now" and "d \<noteq> []" and "decoded dec d = Inr b" and "suspended s = []"
  shows "onmessage dec t interrupted_message s =
           (None, s\<lparr>effects := effects s @ map SourceStop (sourcesRef s),
                    sourcesRef := [], nextStartTimeRef := 0\<rparr>)
       \<and> sourcesRef (handle dec s (Message t interrupted_message)) = []
       \<and> nextStartTimeRef (handle dec s (Message t interrupted_message)) = 0
       \<and> effects (run dec s [Message t interrupted_message, Message now (audio_message d),
            DecodeSettled 0]) =
           effects s @ map SourceStop (sourcesRef s) @
             [SourceStart (sources_created s) now (duration b)]"
proof -
  let ?s1 = "s\<lparr>effects := effects s @ map SourceStop (sourcesRef s),
               sourcesRef := [], nextStartTimeRef := 0\<rparr>"
  have idle: "suspended ?s1 = []" using assms(4) by simp
  have "run dec s [Message t interrupted_message, Message now (audio_message d),
            DecodeSettled 0] =
        run dec ?s1 [Message now (audio_message d), DecodeSettled 0]"
    by (simp add: run_Cons run_Nil onmessage_interrupted)
  also have "\<dots> = schedule b (?s1\<lparr>nextStartTimeRef := max (nextStartTimeRef ?s1) now\<rparr>)"
    by (rule awaited_chunk [OF idle assms(2,3)])
  finally show ?thesis
    using assms(1) by (simp add: onmessage_interrupted schedule_def)
qed

text \<open>
  Claim C2. In the open session (one source scheduled, cursor 6) a chunk of 1/2 s
  arrives at clock value 5.2 and its decoding is pending when an interruption message
  is handled at 5.5. The interruption stops the scheduled source, empties the set and
  zeroes the cursor. The pending run then continues: the next call of \<^verbatim>\<open>source.start\<close>
  is at 0, not at the clock's value, and its source is never stopped: it is left in the
  active set, with the cursor at 1/2.
\<close>

theorem interruption_overtakes_decode:
  "sourcesRef (run half_second_decoder open_session
      [Message (52 / 10) (audio_message ''a''), Message (55 / 10) interrupted_message]) = []
   \<and> nextStartTimeRef (run half_second_decoder open_session
      [Message (52 / 10) (audio_message ''a''), Message (55 / 10) interrupted_message]) = 0
   \<and> effects (run half_second_decoder open_session
      [Message (52 / 10) (audio_message ''a''), Message (55 / 10) interrupted_message,
       DecodeSettled 0]) =
       [SourceStart 0 5 1, SourceStop 0, SourceStart 1 0 (1 / 2)]
   \<and> sourcesRef (run half_second_decoder open_session
      [Message (52 / 10) (audio_message ''a''), Message (55 / 10) interrupted_message,
       DecodeSettled 0]) = [1]
   \<and> nextStartTimeRef (run half_second_decoder open_session
      [Message (52 / 10) (audio_message ''a''), Message (55 / 10) interrupted_message,
       DecodeSettled 0]) = 1 / 2"
proof -
  let ?a = "(replicate (length ''a'') (0::byte), audio_message ''a'')"
  let ?s2 = "open_session\<lparr>nextStartTimeRef := 0, suspended := [?a],
                effects := [SourceStart 0 5 1, SourceStop 0], sourcesRef := []\<rparr>"
  have interrupted: "run half_second_decoder open_session
      [Message (52 / 10) (audio_message ''a''), Message (55 / 10) interrupted_message] = ?s2"
    by (simp add: run_Cons run_Nil chunk_arrives onmessage_interrupted open_session_eq)
  have settled: "handle half_second_decoder ?s2 (DecodeSettled 0) =
      ?s2\<lparr>suspended := [], effects := [SourceStart 0 5 1, SourceStop 0, SourceStart 1 0 (1 / 2)],
          nextStartTimeRef := 1 / 2, sourcesRef := [1], sources_created := 2\<rparr>"
    by (simp add: settles open_session_eq)
  have "run half_second_decoder open_session
      [Message (52 / 10) (audio_message ''a''), Message (55 / 10) interrupted_message,
       DecodeSettled 0] = handle half_second_decoder ?s2 (DecodeSettled 0)"
    using interrupted by (simp add: run_Cons run_Nil)
  then show ?thesis
    unfolding interrupted settled by simp
qed

text \<open>
  Claim C5. On a turn-complete message the handler appends one turn, the user's entry
  followed by the model's entry with the buffers' contents (either may be empty), when
  one of the buffers is non-empty, and nothing when both are empty; it clears both
  buffers; a second turn-complete message right after changes nothing.
\<close>

theorem turn_complete_flushes:
  "transcriptions (handle dec s (Message now turnComplete_message)) =
     transcriptions s @
       (if user (transcriptionRef s) = [] \<and> model (transcriptionRef s) = [] then []
        else [(User, user (transcriptionRef s)), (Model, model (transcriptionRef s))])
   \<and> transcriptionRef (handle dec s (Message now turnComplete_message)) =
       \<lparr>user = [], model = []\<rparr>
   \<and> handle dec (handle dec s (Message now turnComplete_message))
        (Message now' turnComplete_message) =
       handle dec s (Message now turnComplete_message)"
proof -
  let ?flushed = "handle_turnComplete turnComplete_message s"
  have first: "handle dec s (Message now turnComplete_message) = ?flushed"
    by (simp add: onmessage_turnComplete)
  have emptied: "transcriptionRef ?flushed = \<lparr>user = [], model = []\<rparr>"
    by (simp add: handle_turnComplete_flush)
  have again: "handle_turnComplete turnComplete_message ?flushed = ?flushed"
    by (simp add: handle_turnComplete_flush)
  have second: "handle dec ?flushed (Message now' turnComplete_message) = ?flushed"
    by (simp add: onmessage_turnComplete again)
  show ?thesis
    unfolding first second using emptied by (simp add: handle_turnComplete_flush)
qed

theorem turn_complete_flushes_witness:
  "transcriptions (run half_second_decoder initial_state
      [Message 1 (input_message ''hel''), Message 2 (input_message ''lo''),
       Message 3 (output_message ''hi''), Message 4 turnComplete_message]) =
     [(User, ''hello''), (Model, ''hi'')]
   \<and> transcriptions (run half_second_decoder initial_state
      [Message 1 (input_message ''hel''), Message 2 (input_message ''lo''),
       Message 3 (output_message ''hi''), Message 4 turnComplete_message,
       Message 5 turnComplete_message]) =
     [(User, ''hello''), (Model, ''hi'')]
   \<and> transcriptions (handle half_second_decoder initial_state (Message 1 turnComplete_message)) = []"
proof -
  let ?s = "run half_second_decoder initial_state
      [Message 1 (input_message ''hel''), Message 2 (input_message ''lo''),
       Message 3 (output_message ''hi'')]"
  have s: "transcriptionRef ?s = \<lparr>user = ''hello'', model = ''hi''\<rparr>" "transcriptions ?s = []"
    by (simp_all add: run_Cons run_Nil onmessage_input onmessage_output initial_state_def)
  have r4: "run half_second_decoder initial_state
      [Message 1 (input_message ''hel''), Message 2 (input_message ''lo''),
       Message 3 (output_message ''hi''), Message 4 turnComplete_message] =
      handle half_second_decoder ?s (Message 4 turnComplete_message)"
    by (simp add: run_Cons run_Nil)
  have r5: "run half_second_decoder initial_state
      [Message 1 (input_message ''hel''), Message 2 (input_message ''lo''),
       Message 3 (output_message ''hi''), Message 4 turnComplete_message,
       Message 5 turnComplete_message] =
      handle half_second_decoder (handle half_second_decoder ?s (Message 4 turnComplete_message)) (Message 5 turnComplete_message)"
    by (simp add: run_Cons run_Nil)
  have i: "transcriptionRef initial_state = \<lparr>user = [], model = []\<rparr>"
    "transcriptions initial_state = []"
    by (simp_all add: initial_state_def)
  show ?thesis
    unfolding r4 r5
    using turn_complete_flushes [of half_second_decoder ?s 4 5] turn_complete_flushes [of half_second_decoder initial_state 1 1]
    by (simp only: s i) simp
qed

subsection \<open>The cursor\<close>

lemma remaining_branches_cursor:
  "nextStartTimeRef (remaining_branches m s) = (if interrupted m then 0 else nextStartTimeRef s)"
  by (simp add: remaining_branches_def handle_turnComplete_def handle_outputTranscription_def
      handle_inputTranscription_def handle_interrupted_def Let_def split: option.splits)

lemma onmessage_cursor:
  "nextStartTimeRef (snd (onmessage dec now m s)) = 0 \<and> interrupted m
   \<or> nextStartTimeRef s \<le> nextStartTimeRef (snd (onmessage dec now m s))"
  by (auto simp: onmessage_def remaining_branches_cursor Let_def
      split: sum.splits option.splits)

lemma onmessage_resumed_cursor:
  "nextStartTimeRef (snd (onmessage_resumed dec k s)) = 0
     \<and> k < length (suspended s) \<and> interrupted (snd (suspended s ! k))
   \<or> nextStartTimeRef s \<le> nextStartTimeRef (snd (onmessage_resumed dec k s))"
proof (cases "k < length (suspended s)")
  case False
  then show ?thesis by (simp add: onmessage_resumed_def)
next
  case True
  obtain data m where p: "suspended s ! k = (data, m)" by (cases "suspended s ! k")
  show ?thesis
  proof (cases "decodeAudioData_fn dec data 24000 1")
    case (Inl e)
    with True p show ?thesis by (simp add: onmessage_resumed_def)
  next
    case (Inr b)
    have "nextStartTimeRef s \<le> nextStartTimeRef s + duration b"
      using duration_nonneg [of b] by simp
    with True p Inr show ?thesis
      by (simp add: onmessage_resumed_def remaining_branches_cursor schedule_fields)
  qed
qed

lemma stopSession_cursor: "nextStartTimeRef (stopSession s) = 0"
  by (simp add: stopSession_def Let_def)

text \<open>
  The cursor never decreases over an event that is neither the handling of a message
  with the \<open>interrupted\<close> flag nor a run of \<^verbatim>\<open>stopSession\<close>; over those it becomes
  zero, or does not decrease when the handler was rejected before its interrupted
  branch.
\<close>

lemma cursor_monotone_except_resets:
  "(resets_cursor s e = False \<longrightarrow> nextStartTimeRef s \<le> nextStartTimeRef (handle dec s e))
   \<and> (resets_cursor s e \<longrightarrow>
        nextStartTimeRef (handle dec s e) = 0
        \<or> nextStartTimeRef s \<le> nextStartTimeRef (handle dec s e))"
proof (cases e)
  case (Message t msg)
  then show ?thesis using onmessage_cursor [of dec t msg s] by auto
next
  case (DecodeSettled k)
  then show ?thesis using onmessage_resumed_cursor [of dec k s] by auto
qed (simp_all add: click_def stopSession_cursor startSession_begin_def
      startSession_catch_def startSession_resolved_def onopen_def onended_def
      onaudioprocess_def onerror_def onclose_def)

text \<open>
  Claim C8. A chunk of 1 s arrives at clock value 5: the handler raises the cursor
  from 0 to 5 and awaits the decoding. An interruption message, handled at 5.5 while
  the decoding is pending, sets the cursor to 0. When the decoding settles the frame
  is started at the cursor as it is then, 0, which lies before the clock's value at the
  chunk's arrival, 5; the cursor becomes 1.
\<close>

theorem late_frame_starts_before_clock:
  "nextStartTimeRef (run half_second_decoder initial_state
      [Message 5 (audio_message ''ab'')]) = 5
   \<and> nextStartTimeRef (run half_second_decoder initial_state
      [Message 5 (audio_message ''ab''), Message (55 / 10) interrupted_message]) = 0
   \<and> start_times (effects (run half_second_decoder initial_state
      [Message 5 (audio_message ''ab''), Message (55 / 10) interrupted_message,
       DecodeSettled 0])) = [0]
   \<and> nextStartTimeRef (run half_second_decoder initial_state
      [Message 5 (audio_message ''ab''), Message (55 / 10) interrupted_message,
       DecodeSettled 0]) = 1
   \<and> (0::real) < 5"
proof -
  let ?a = "(replicate (length ''ab'') (0::byte), audio_message ''ab'')"
  let ?s1 = "initial_state\<lparr>nextStartTimeRef := 5, suspended := [?a]\<rparr>"
  let ?s2 = "initial_state\<lparr>nextStartTimeRef := 0, suspended := [?a]\<rparr>"
  have arrived: "run half_second_decoder initial_state [Message 5 (audio_message ''ab'')] = ?s1"
    by (simp add: run_Cons run_Nil chunk_arrives initial_state_def)
  have interrupted: "handle half_second_decoder ?s1 (Message (55 / 10) interrupted_message) = ?s2"
    by (simp add: onmessage_interrupted initial_state_def)
  have settled: "handle half_second_decoder ?s2 (DecodeSettled 0) =
      initial_state\<lparr>effects := [SourceStart 0 0 1], nextStartTimeRef := 1,
                     sourcesRef := [0], sources_created := 1\<rparr>"
    by (simp add: settles initial_state_def)
  have two: "run half_second_decoder initial_state
      [Message 5 (audio_message ''ab''), Message (55 / 10) interrupted_message] = ?s2"
    using arrived interrupted by (simp add: run_Cons run_Nil)
  have three: "run half_second_decoder initial_state
      [Message 5 (audio_message ''ab''), Message (55 / 10) interrupted_message,
       DecodeSettled 0] =
      initial_state\<lparr>effects := [SourceStart 0 0 1], nextStartTimeRef := 1,
                     sourcesRef := [0], sources_created := 1\<rparr>"
    using arrived interrupted settled by (simp add: run_Cons run_Nil)
  show ?thesis
    unfolding arrived two three by simp
qed

text \<open>
  Claim C10. A message carrying only the \<open>interrupted\<close> flag changes the calls made
  (the sources are stopped), the active set and the cursor, and nothing else; the
  interrupted branch leaves both transcript buffers and the turn history as they
  are, for every message; and the turn emitted by a turn-complete message after the
  interruption holds the fragments accumulated before it.
\<close>

theorem interruption_keeps_transcripts:
  "handle dec s (Message now interrupted_message) =
     s\<lparr>effects := effects s @ map SourceStop (sourcesRef s),
       sourcesRef := [], nextStartTimeRef := 0\<rparr>
   \<and> transcriptionRef (handle_interrupted m s) = transcriptionRef s
   \<and> transcriptions (handle_interrupted m s) = transcriptions s
   \<and> transcriptions (run dec s
        [Message now interrupted_message, Message now' turnComplete_message]) =
       transcriptions s @
         (if user (transcriptionRef s) = [] \<and> model (transcriptionRef s) = [] then []
          else [(User, user (transcriptionRef s)), (Model, model (transcriptionRef s))])"
  by (simp add: onmessage_interrupted handle_interrupted_def run_Cons run_Nil
      onmessage_turnComplete handle_turnComplete_flush)

theorem interruption_keeps_transcripts_witness:
  "transcriptionRef open_session = \<lparr>user = ''hel'', model = []\<rparr>
   \<and> transcriptionRef (handle half_second_decoder open_session (Message 7 interrupted_message)) =
       \<lparr>user = ''hel'', model = []\<rparr>
   \<and> transcriptions (run half_second_decoder open_session
        [Message 7 interrupted_message, Message 8 turnComplete_message]) =
       [(User, ''hel''), (Model, [])]"
  using interruption_keeps_transcripts [of half_second_decoder open_session 7 interrupted_message 8]
  by (simp add: open_session_eq)

subsection \<open>Teardown\<close>

lemma stopSession_twice: "stopSession (stopSession s) = stopSession s"
  by (simp add: stopSession_def Let_def)

text \<open>
  \<^verbatim>\<open>stopSession\<close> run on the state it leaves behind changes nothing and makes no
  further call, also when it is \<^verbatim>\<open>onclose\<close> that runs it the second time; run on the
  idle initial state it changes nothing; and the state it leaves holds neither the
  session nor the output audio context, is inactive and has the cursor at zero.
\<close>

lemma stopSession_idempotent:
  "stopSession (stopSession s) = stopSession s
   \<and> onclose (stopSession s) = stopSession s
   \<and> stopSession initial_state = initial_state
   \<and> sessionRef (stopSession s) = False
   \<and> audioContextRef (stopSession s) = False
   \<and> isActive (stopSession s) = False
   \<and> nextStartTimeRef (stopSession s) = 0"
proof -
  have released: "sessionRef (stopSession s) = False" "audioContextRef (stopSession s) = False"
    by (simp_all add: stopSession_def Let_def)
  have idle: "stopSession initial_state = initial_state"
    by (simp add: stopSession_def initial_state_def)
  have inactive: "isActive (stopSession s) = False"
    by (simp add: stopSession_def Let_def)
  show ?thesis
    using released idle inactive
    by (simp add: stopSession_twice stopSession_cursor onclose_def)
qed

lemma stopSession_capture: "capture_connected (stopSession s) = capture_connected s"
  by (simp add: stopSession_def Let_def)

lemma stopSession_leaves:
  "sourcesRef (stopSession s) = sourcesRef s"
  "transcriptionRef (stopSession s) = transcriptionRef s"
  by (simp_all add: stopSession_def Let_def)

text \<open>
  Claim C7. The open session stopped twice, by the click on the button and then by
  the \<^verbatim>\<open>onclose\<close> callback: the second run changes nothing and makes no call, so the
  end state is that of one stop, but in that end state the capture is still wired to
  the microphone, and the next captured frame is encoded and sent.
\<close>

theorem double_stop_leaves_capture_wired:
  "run half_second_decoder open_session [Click, ChannelClosed] =
     run half_second_decoder open_session [Click]
   \<and> effects (run half_second_decoder open_session [Click, ChannelClosed]) =
       [SourceStart 0 5 1, SessionClose, OutputContextClose]
   \<and> capture_connected (run half_second_decoder open_session [Click, ChannelClosed])
   \<and> effects (run half_second_decoder open_session
        [Click, ChannelClosed, AudioProcess [1 / 4]]) =
       [SourceStart 0 5 1, SessionClose, OutputContextClose,
        SendRealtimeInput (pcm_blob_data [1 / 4]) ''audio/pcm;rate=16000'']"
proof -
  have once: "run half_second_decoder open_session [Click] = stopSession open_session"
    by (simp add: run_Cons run_Nil click_def open_session_eq)
  have twice: "run half_second_decoder open_session [Click, ChannelClosed] =
      stopSession open_session"
    by (simp add: run_Cons run_Nil click_def onclose_def stopSession_twice open_session_eq)
  have wired: "capture_connected (stopSession open_session)"
    by (simp add: stopSession_capture open_session_eq)
  have calls: "effects (stopSession open_session) =
      [SourceStart 0 5 1, SessionClose, OutputContextClose]"
    by (simp add: stopSession_def open_session_eq)
  have "run half_second_decoder open_session [Click, ChannelClosed, AudioProcess [1 / 4]] =
      handle half_second_decoder (stopSession open_session) (AudioProcess [1 / 4])"
    using twice by (simp add: run_Cons run_Nil)
  then have sent: "effects (run half_second_decoder open_session
        [Click, ChannelClosed, AudioProcess [1 / 4]]) =
      effects (stopSession open_session) @
        [SendRealtimeInput (pcm_blob_data [1 / 4]) ''audio/pcm;rate=16000'']"
    using wired by (simp add: onaudioprocess_def)
  show ?thesis
    unfolding once twice sent using wired calls by simp
qed

text \<open>
  Claim C6. The open session, with one scheduled source and the fragment \<open>hel\<close> in
  the user's buffer, torn down by the close of the channel: the session and the output
  context are closed, but the active set still holds the source, the user's buffer
  still holds \<open>hel\<close>, and the capture is still wired. A channel error tears nothing
  down. The fragment left behind is emitted as a turn of the next session.
\<close>

theorem teardown_leaves_sources_and_transcripts:
  "sourcesRef (handle half_second_decoder open_session ChannelClosed) = [0]
   \<and> transcriptionRef (handle half_second_decoder open_session ChannelClosed) =
       \<lparr>user = ''hel'', model = []\<rparr>
   \<and> capture_connected (handle half_second_decoder open_session ChannelClosed)
   \<and> effects (handle half_second_decoder open_session ChannelClosed) =
       [SourceStart 0 5 1, SessionClose, OutputContextClose]
   \<and> handle half_second_decoder open_session ChannelError = open_session
   \<and> transcriptions (run half_second_decoder open_session
        [ChannelClosed, Click, SessionResolved, Opened, Message 9 turnComplete_message]) =
       [(User, ''hel''), (Model, [])]"
  by (simp add: open_session_eq onclose_def stopSession_def onerror_def run_Cons run_Nil
      click_def startSession_begin_def startSession_resolved_def onopen_def
      onmessage_turnComplete handle_turnComplete_flush)

text \<open>
  Claim C9. After the click that stops the open session the capture is still wired,
  and the next captured frame is encoded and sent.
\<close>

theorem capture_continues_after_stop:
  "handle half_second_decoder open_session Click = stopSession open_session
   \<and> capture_connected (stopSession open_session)
   \<and> effects (run half_second_decoder open_session [Click, AudioProcess [0, 1 / 2]]) =
       [SourceStart 0 5 1, SessionClose, OutputContextClose,
        SendRealtimeInput ''AAAAQA=='' ''audio/pcm;rate=16000'']"
  by (simp add: open_session_eq run_Cons run_Nil click_def stopSession_def onaudioprocess_def
      pcm_blob_data_def int16_of_samples_def ToInt16_def js_truncate_def uint8_view_def
      int16_bytes_def b64_char_def char_of_eq_iff)

end
